theory Spec2Isabelle
  imports Main
begin

section \<open>Pastorate Hub API: the location directory and its diagnostic probe\<close>

text \<open>
  A shallow embedding of \<^verbatim>\<open>main.py\<close>: the pydantic models as records, the module-level
  demo tables as one record of module globals, and each route handler as a function that
  takes the globals and returns its result together with the globals it leaves behind.
\<close>

subsection \<open>Strings\<close>

text \<open>
  A Python \<^verbatim>\<open>str\<close> is a sequence of Unicode code points, and slicing and \<^verbatim>\<open>len\<close>
  count code points. The status strings of the probe start with symbols outside ASCII, so a
  string is modelled as the list of its code points; \<open>ascii\<close> embeds an ASCII literal.
\<close>

type_synonym pystr = "nat list"

abbreviation ascii :: "string \<Rightarrow> pystr" where
  "ascii s \<equiv> map of_char s"

subsection \<open>Models\<close>

record Leader =
  name :: pystr
  role :: pystr
  photo :: "pystr option"

record NewsItem =
  id_field :: int
  title :: pystr
  excerpt :: pystr
  date :: pystr
  url :: pystr

record GalleryImage =
  src :: pystr
  alt :: pystr

record Location =
  slug :: pystr
  name :: pystr
  address :: pystr
  service_times :: "pystr list"
  phone :: "pystr option"
  email :: "pystr option"
  hero_tagline :: "pystr option"

record LocationDetail =
  location :: Location
  leadership :: "Leader list"
  news :: "NewsItem list"
  gallery :: "GalleryImage list"

text \<open>\<^verbatim>\<open>HTTPException(status_code=..., detail=...)\<close>, the only exception a data route raises.\<close>

record HTTPException =
  status_code :: nat
  detail :: pystr

subsection \<open>Demo data\<close>

text \<open>
  The module binds four global names to list objects when it is loaded. A handler reads the
  binding at the time of the call, so the handlers below take the globals as an argument.
\<close>

record module_globals =
  LOCATIONS :: "Location list"
  DEMO_LEADERS :: "Leader list"
  DEMO_NEWS :: "NewsItem list"
  DEMO_GALLERY :: "GalleryImage list"

definition mk_location ::
  "string \<Rightarrow> string \<Rightarrow> string \<Rightarrow> string list \<Rightarrow> string \<Rightarrow> string \<Rightarrow> string \<Rightarrow> Location" where
  "mk_location s n a ts p e h =
     \<lparr>slug = ascii s, name = ascii n, address = ascii a, service_times = map (\<lambda>t. ascii t) ts,
      phone = Some (ascii p), email = Some (ascii e), hero_tagline = Some (ascii h)\<rparr>"

definition initial_LOCATIONS :: "Location list" where
  "initial_LOCATIONS =
     [mk_location ''central-campus'' ''Central Congregation'' ''100 Main St, Cityville''
        [''Sundays 9:00 AM'', ''Sundays 11:00 AM''] ''(555) 123-0001'' ''central@example.org''
        ''A welcoming community in the heart of the city.'',
      mk_location ''north-campus'' ''North Congregation'' ''200 North Rd''
        [''Sundays 10:00 AM''] ''(555) 123-0002'' ''north@example.org''
        ''Growing together in faith.'',
      mk_location ''south-campus'' ''South Congregation'' ''300 South Ave''
        [''Sundays 10:30 AM''] ''(555) 123-0003'' ''south@example.org''
        ''Serving with joy.'',
      mk_location ''east-campus'' ''East Congregation'' ''400 East Blvd''
        [''Sundays 9:30 AM''] ''(555) 123-0004'' ''east@example.org''
        ''Hope for every home.'',
      mk_location ''west-campus'' ''West Congregation'' ''500 West Way''
        [''Sundays 11:15 AM''] ''(555) 123-0005'' ''west@example.org''
        ''Rooted and reaching.'',
      mk_location ''riverside-campus'' ''Riverside Congregation'' ''600 River Rd''
        [''Sundays 9:00 AM''] ''(555) 123-0006'' ''riverside@example.org''
        ''Life by the water.'',
      mk_location ''hillside-campus'' ''Hillside Congregation'' ''700 Hill St''
        [''Sundays 10:00 AM''] ''(555) 123-0007'' ''hillside@example.org''
        ''Lifted by grace.'']"

definition initial_DEMO_LEADERS :: "Leader list" where
  "initial_DEMO_LEADERS =
     [\<lparr>Leader.name = ascii ''Alex Morgan'', role = ascii ''Lead Pastor'',
       photo = Some (ascii ''https://images.unsplash.com/photo-1544006659-f0b21884ce1d?q=80&w=800&auto=format&fit=crop'')\<rparr>,
      \<lparr>Leader.name = ascii ''Jordan Lee'', role = ascii ''Associate Pastor'',
       photo = Some (ascii ''https://images.unsplash.com/photo-1547425260-76bcadfb4f2c?q=80&w=800&auto=format&fit=crop'')\<rparr>,
      \<lparr>Leader.name = ascii ''Taylor Kim'', role = ascii ''Worship Director'',
       photo = Some (ascii ''https://images.unsplash.com/photo-1527980965255-d3b416303d12?q=80&w=800&auto=format&fit=crop'')\<rparr>,
      \<lparr>Leader.name = ascii ''Riley Chen'', role = ascii ''Next Gen Lead'',
       photo = Some (ascii ''https://images.unsplash.com/photo-1544006658-85f8d80b2983?q=80&w=800&auto=format&fit=crop'')\<rparr>]"

definition initial_DEMO_NEWS :: "NewsItem list" where
  "initial_DEMO_NEWS =
     [\<lparr>id_field = 1, title = ascii ''Pastorate Vision Night'',
       excerpt = ascii ''Join us as we share the vision for the coming year.'',
       date = ascii ''2025-01-15'', url = ascii ''https://example.org/news/vision-night''\<rparr>,
      \<lparr>id_field = 2, title = ascii ''Community Serve Day'',
       excerpt = ascii ''City-wide outreach across all locations.'',
       date = ascii ''2025-02-01'', url = ascii ''https://example.org/news/serve-day''\<rparr>]"

definition initial_DEMO_GALLERY :: "GalleryImage list" where
  "initial_DEMO_GALLERY =
     [\<lparr>src = ascii ''https://images.unsplash.com/photo-1488521787991-ed7bbaae773c?q=80&w=1200&auto=format&fit=crop'',
       alt = ascii ''Gathering''\<rparr>,
      \<lparr>src = ascii ''https://images.unsplash.com/photo-1520975682031-a3ee3e3c7b80?q=80&w=1200&auto=format&fit=crop'',
       alt = ascii ''Worship''\<rparr>,
      \<lparr>src = ascii ''https://images.unsplash.com/photo-1470225620780-dba8ba36b745?q=80&w=1200&auto=format&fit=crop'',
       alt = ascii ''Community''\<rparr>]"

text \<open>The globals as the module leaves them once it is loaded.\<close>

definition startup :: module_globals where
  "startup =
     \<lparr>LOCATIONS = initial_LOCATIONS, DEMO_LEADERS = initial_DEMO_LEADERS,
      DEMO_NEWS = initial_DEMO_NEWS, DEMO_GALLERY = initial_DEMO_GALLERY\<rparr>"

subsection \<open>Routes\<close>

text \<open>The two greeting handlers return a dictionary with the single key \<^verbatim>\<open>message\<close>.\<close>

definition read_root :: "module_globals \<Rightarrow> pystr \<times> module_globals" where
  "read_root g = (ascii ''Hello from FastAPI Backend!'', g)"

definition hello :: "module_globals \<Rightarrow> pystr \<times> module_globals" where
  "hello g = (ascii ''Hello from the backend API!'', g)"

definition list_locations :: "module_globals \<Rightarrow> Location list \<times> module_globals" where
  "list_locations g = (LOCATIONS g, g)"

text \<open>
  \<^verbatim>\<open>next((l for l in LOCATIONS if l.slug == slug), None)\<close> is the first element of the
  list with that slug, or \<^verbatim>\<open>None\<close>. A pydantic model object defines neither
  \<^verbatim>\<open>__bool__\<close> nor \<^verbatim>\<open>__len__\<close>, so \<^verbatim>\<open>not loc\<close> holds for \<^verbatim>\<open>None\<close> only.
\<close>

definition get_location ::
  "pystr \<Rightarrow> module_globals \<Rightarrow> (HTTPException + LocationDetail) \<times> module_globals" where
  "get_location s g =
     (let loc = find (\<lambda>l. slug l = s) (LOCATIONS g) in
      case loc of
        None \<Rightarrow> (Inl \<lparr>status_code = 404, detail = ascii ''Location not found''\<rparr>, g)
      | Some l \<Rightarrow>
          (Inr \<lparr>location = l, leadership = DEMO_LEADERS g, news = DEMO_NEWS g,
                gallery = DEMO_GALLERY g\<rparr>, g))"

subsection \<open>The diagnostic probe\<close>

text \<open>
  An exception object, as far as the probe can tell one from another. The constructor is its
  class as the \<^verbatim>\<open>except\<close> clauses see it: an \<^verbatim>\<open>ImportError\<close> (or a subclass such as
  \<^verbatim>\<open>ModuleNotFoundError\<close>), any other instance of \<^verbatim>\<open>Exception\<close>, or an instance of
  \<^verbatim>\<open>BaseException\<close> outside \<^verbatim>\<open>Exception\<close> (\<^verbatim>\<open>KeyboardInterrupt\<close>, \<^verbatim>\<open>SystemExit\<close>,
  \<^verbatim>\<open>GeneratorExit\<close>). The argument is the outcome of \<^verbatim>\<open>str(e)\<close>, which runs the
  \<^verbatim>\<open>__str__\<close> of the object: \<open>Inr m\<close> when it returns the text \<open>m\<close>, \<open>Inl e'\<close> when it
  raises \<open>e'\<close> (a \<^verbatim>\<open>__str__\<close> that returns something else than a string makes \<^verbatim>\<open>str\<close>
  raise a \<^verbatim>\<open>TypeError\<close>).
\<close>

datatype py_exc =
    ImportError "py_exc + pystr"
  | Exception "py_exc + pystr"
  | BaseException "py_exc + pystr"

text \<open>
  The database handle, as far as the probe touches it. \<open>name_attr\<close> is the outcome of looking
  up the attribute \<^verbatim>\<open>name\<close>: \<open>Inr None\<close> when the handle has no such attribute
  (\<^verbatim>\<open>hasattr\<close> is false), \<open>Inr (Some n)\<close> when it has one, \<open>Inl e\<close> when the lookup raises
  something other than \<^verbatim>\<open>AttributeError\<close>, which \<^verbatim>\<open>hasattr\<close> lets through.
  \<open>list_collection_names\<close> is the outcome of the call of that method.
\<close>

record db_handle =
  name_attr :: "py_exc + pystr option"
  list_collection_names :: "py_exc + pystr list"

text \<open>
  What the probe reads from outside the module: the outcome of
  \<^verbatim>\<open>from database import db\<close> (an exception, \<^verbatim>\<open>None\<close> or a handle) and \<^verbatim>\<open>os.getenv\<close>.
\<close>

record environment =
  import_db :: "py_exc + db_handle option"
  getenv :: "pystr \<Rightarrow> pystr option"

text \<open>The dictionary \<^verbatim>\<open>response\<close>, one field for each of its six keys.\<close>

record response =
  backend :: pystr
  database :: pystr
  database_url :: "pystr option"
  database_name :: "pystr option"
  connection_status :: pystr
  collections :: "pystr list"

text \<open>The symbols that open the status strings: U+2705, U+274C, and U+26A0 followed by U+FE0F.\<close>

definition check_mark :: pystr where
  "check_mark = [0x2705]"

definition cross_mark :: pystr where
  "cross_mark = [0x274C]"

definition warning_sign :: pystr where
  "warning_sign = [0x26A0, 0xFE0F]"

text \<open>Truth value of what \<^verbatim>\<open>os.getenv\<close> returns: \<^verbatim>\<open>None\<close> and the empty string are false.\<close>

definition truthy :: "pystr option \<Rightarrow> bool" where
  "truthy v = (case v of None \<Rightarrow> False | Some s \<Rightarrow> s \<noteq> [])"

text \<open>
  The dictionary is updated in place, so an exception leaves behind the updates made before
  it. Each block returns the pending exception, if any, with the dictionary as it stands.
  The inner \<^verbatim>\<open>try\<close> (lines 139 to 144): \<^verbatim>\<open>except Exception\<close> catches every instance of
  \<^verbatim>\<open>Exception\<close>, \<^verbatim>\<open>ImportError\<close> included. Its body evaluates \<^verbatim>\<open>str(e)\<close> before it
  assigns; an exception raised there leaves the inner \<^verbatim>\<open>try\<close> and is pending in the body
  of the outer one.
\<close>

definition inner_try :: "db_handle \<Rightarrow> response \<Rightarrow> py_exc option \<times> response" where
  "inner_try db r =
     (case list_collection_names db of
        Inr cols \<Rightarrow>
          (None, r\<lparr>collections := take 10 cols,
                   database := check_mark @ ascii '' Connected & Working''\<rparr>)
      | Inl (BaseException s) \<Rightarrow> (Some (BaseException s), r)
      | Inl (ImportError (Inr m)) \<Rightarrow>
          (None, r\<lparr>database := warning_sign @ ascii ''  Connected but Error: '' @ take 50 m\<rparr>)
      | Inl (ImportError (Inl e')) \<Rightarrow> (Some e', r)
      | Inl (Exception (Inr m)) \<Rightarrow>
          (None, r\<lparr>database := warning_sign @ ascii ''  Connected but Error: '' @ take 50 m\<rparr>)
      | Inl (Exception (Inl e')) \<Rightarrow> (Some e', r))"

text \<open>The body of the outer \<^verbatim>\<open>try\<close> (lines 132 to 146).\<close>

definition outer_try_body :: "environment \<Rightarrow> response \<Rightarrow> py_exc option \<times> response" where
  "outer_try_body env r =
     (case import_db env of
        Inl e \<Rightarrow> (Some e, r)
      | Inr None \<Rightarrow>
          (None, r\<lparr>database := warning_sign @ ascii ''  Available but not initialized''\<rparr>)
      | Inr (Some db) \<Rightarrow>
          (let r1 = r\<lparr>database := check_mark @ ascii '' Available'',
                      database_url := Some (check_mark @ ascii '' Configured'')\<rparr>
           in case name_attr db of
                Inl e \<Rightarrow> (Some e, r1)
              | Inr a \<Rightarrow>
                  (let r2 = r1\<lparr>database_name :=
                                  Some (case a of Some n \<Rightarrow> n
                                        | None \<Rightarrow> check_mark @ ascii '' Connected''),
                                connection_status := ascii ''Connected''\<rparr>
                   in inner_try db r2)))"

text \<open>
  The \<^verbatim>\<open>except\<close> clauses of the outer \<^verbatim>\<open>try\<close> (lines 148 to 151), tried in order. An
  exception that neither clause matches leaves the function, and so does one that
  \<^verbatim>\<open>str(e)\<close> raises in the body of the second clause: no clause of a \<^verbatim>\<open>try\<close> catches
  what another clause of the same \<^verbatim>\<open>try\<close> raises.
\<close>

definition outer_except :: "py_exc option \<times> response \<Rightarrow> py_exc + response" where
  "outer_except p =
     (case p of
        (None, r) \<Rightarrow> Inr r
      | (Some (ImportError s), r) \<Rightarrow>
          Inr (r\<lparr>database := cross_mark @
                    ascii '' Database module not found (run enable-database first)''\<rparr>)
      | (Some (Exception (Inr m)), r) \<Rightarrow>
          Inr (r\<lparr>database := cross_mark @ ascii '' Error: '' @ take 50 m\<rparr>)
      | (Some (Exception (Inl e')), r) \<Rightarrow> Inl e'
      | (Some (BaseException s), r) \<Rightarrow> Inl (BaseException s))"

text \<open>Lines 153 and 154: the two fields that report the environment variables.\<close>

definition env_report :: "environment \<Rightarrow> response \<Rightarrow> response" where
  "env_report env r =
     (let r1 = r\<lparr>database_url :=
                   Some (if truthy (getenv env (ascii ''DATABASE_URL''))
                         then check_mark @ ascii '' Set''
                         else cross_mark @ ascii '' Not Set'')\<rparr>
      in r1\<lparr>database_name :=
               Some (if truthy (getenv env (ascii ''DATABASE_NAME''))
                     then check_mark @ ascii '' Set''
                     else cross_mark @ ascii '' Not Set'')\<rparr>)"

definition initial_response :: response where
  "initial_response =
     \<lparr>backend = check_mark @ ascii '' Running'',
      database = cross_mark @ ascii '' Not Available'',
      database_url = None, database_name = None,
      connection_status = ascii ''Not Connected'', collections = []\<rparr>"

text \<open>The handler: \<open>Inl e\<close> when the exception \<open>e\<close> reaches the caller, \<open>Inr r\<close> when it returns \<open>r\<close>.\<close>

definition test_database ::
  "environment \<Rightarrow> module_globals \<Rightarrow> (py_exc + response) \<times> module_globals" where
  "test_database env g =
     (case outer_except (outer_try_body env initial_response) of
        Inl e \<Rightarrow> (Inl e, g)
      | Inr r \<Rightarrow> (Inr (env_report env r), g))"

subsection \<open>Serving requests\<close>

text \<open>
  The five routes of the application. A request to \<^verbatim>\<open>/test\<close> comes with the environment the
  probe finds at that moment. \<open>serve\<close> gives the globals a request leaves behind, \<open>run\<close>
  those after a sequence of requests.
\<close>

datatype request =
    GET_root
  | GET_api_hello
  | GET_api_locations
  | GET_api_location pystr
  | GET_test environment

fun serve :: "module_globals \<Rightarrow> request \<Rightarrow> module_globals" where
  "serve g GET_root = snd (read_root g)"
| "serve g GET_api_hello = snd (hello g)"
| "serve g GET_api_locations = snd (list_locations g)"
| "serve g (GET_api_location s) = snd (get_location s g)"
| "serve g (GET_test env) = snd (test_database env g)"

definition run :: "module_globals \<Rightarrow> request list \<Rightarrow> module_globals" where
  "run g reqs = foldl serve g reqs"

subsection \<open>Example environments\<close>

text \<open>
  A live connection that enumerates twelve collections, with only \<^verbatim>\<open>DATABASE_URL\<close> set,
  and the response the probe gives there.
\<close>

definition live_db :: db_handle where
  "live_db =
     \<lparr>name_attr = Inr (Some (ascii ''pastorate'')),
      list_collection_names =
        Inr (map (\<lambda>n. ascii n)
          [''locations'', ''leaders'', ''news'', ''gallery'', ''events'', ''sermons'',
           ''groups'', ''members'', ''donations'', ''volunteers'', ''rooms'', ''audit''])\<rparr>"

definition live_env :: environment where
  "live_env =
     \<lparr>import_db = Inr (Some live_db),
      getenv = (\<lambda>k. if k = ascii ''DATABASE_URL'' then Some (ascii ''mongodb://localhost:27017'')
                     else None)\<rparr>"

definition live_response :: response where
  "live_response =
     \<lparr>backend = check_mark @ ascii '' Running'',
      database = check_mark @ ascii '' Connected & Working'',
      database_url = Some (check_mark @ ascii '' Set''),
      database_name = Some (cross_mark @ ascii '' Not Set''),
      connection_status = ascii ''Connected'',
      collections =
        map (\<lambda>n. ascii n)
          [''locations'', ''leaders'', ''news'', ''gallery'', ''events'', ''sermons'',
           ''groups'', ''members'', ''donations'', ''volunteers'']\<rparr>"

text \<open>
  Two environments without the database module. Both have the variable \<^verbatim>\<open>DATABASE_URL\<close>
  and neither has \<^verbatim>\<open>DATABASE_NAME\<close>; in the first the value of \<^verbatim>\<open>DATABASE_URL\<close> is the
  empty string.
\<close>

definition env_url_empty :: environment where
  "env_url_empty =
     \<lparr>import_db = Inl (ImportError (Inr (ascii ''No module named database''))),
      getenv = (\<lambda>k. if k = ascii ''DATABASE_URL'' then Some [] else None)\<rparr>"

definition env_url_given :: environment where
  "env_url_given =
     \<lparr>import_db = Inl (ImportError (Inr (ascii ''No module named database''))),
      getenv = (\<lambda>k. if k = ascii ''DATABASE_URL'' then Some (ascii ''mongodb://localhost:27017'')
                     else None)\<rparr>"

text \<open>
  Three environments in which the probe does not return: the import of the database module
  ends in a \<^verbatim>\<open>SystemExit\<close>; the query is interrupted by a \<^verbatim>\<open>KeyboardInterrupt\<close>; the
  import raises an error whose \<^verbatim>\<open>__str__\<close> raises a \<^verbatim>\<open>RuntimeError\<close> with the text
  \<^verbatim>\<open>no text\<close>.
\<close>

definition env_system_exit :: environment where
  "env_system_exit =
     \<lparr>import_db = Inl (BaseException (Inr (ascii ''1''))), getenv = (\<lambda>k. None)\<rparr>"

definition env_query_interrupted :: environment where
  "env_query_interrupted =
     \<lparr>import_db =
        Inr (Some \<lparr>name_attr = Inr (Some (ascii ''pastorate'')),
                   list_collection_names = Inl (BaseException (Inr []))\<rparr>),
      getenv = (\<lambda>k. None)\<rparr>"

definition env_str_raises :: environment where
  "env_str_raises =
     \<lparr>import_db = Inl (Exception (Inl (Exception (Inr (ascii ''no text''))))),
      getenv = (\<lambda>k. None)\<rparr>"

subsection \<open>Plain failures\<close>

text \<open>
  The failures the two \<^verbatim>\<open>except\<close> clauses are written for: an instance of
  \<^verbatim>\<open>Exception\<close> whose \<^verbatim>\<open>str\<close> returns a text. \<open>plain_failures\<close> holds of an environment
  when each failure the probe meets there is of that kind; after a failed lookup of the name
  the query is not run, and without a handle neither is.
\<close>

fun plain_error :: "py_exc \<Rightarrow> bool" where
  "plain_error (ImportError (Inr m)) = True"
| "plain_error (Exception (Inr m)) = True"
| "plain_error e = False"

definition plain_failures :: "environment \<Rightarrow> bool" where
  "plain_failures env =
     (case import_db env of
        Inl e \<Rightarrow> plain_error e
      | Inr None \<Rightarrow> True
      | Inr (Some db) \<Rightarrow>
          (case name_attr db of
             Inl e \<Rightarrow> plain_error e
           | Inr a \<Rightarrow>
               (case list_collection_names db of
                  Inl e \<Rightarrow> plain_error e
                | Inr cols \<Rightarrow> True)))"

section \<open>Properties\<close>

subsection \<open>Auxiliary facts\<close>

lemmas demo_data_defs =
  startup_def initial_LOCATIONS_def initial_DEMO_LEADERS_def initial_DEMO_NEWS_def
  initial_DEMO_GALLERY_def mk_location_def

lemma find_slug_present:
  "s \<in> set (map slug xs) \<Longrightarrow> \<exists>l. find (\<lambda>l. slug l = s) xs = Some l \<and> slug l = s"
  by (induction xs) auto

lemma find_slug_absent:
  "s \<notin> set (map slug xs) \<Longrightarrow> find (\<lambda>l. slug l = s) xs = None"
  by (induction xs) auto

lemma get_location_found:
  assumes "s \<in> set (map slug (LOCATIONS g))"
  shows "\<exists>l. slug l = s \<and>
           get_location s g =
             (Inr \<lparr>location = l, leadership = DEMO_LEADERS g, news = DEMO_NEWS g,
                   gallery = DEMO_GALLERY g\<rparr>, g)"
proof -
  from find_slug_present [OF assms] obtain l
    where "find (\<lambda>l. slug l = s) (LOCATIONS g) = Some l" and "slug l = s"
    by blast
  then show ?thesis
    by (simp add: get_location_def)
qed

text \<open>No handler assigns to a global or updates one of the lists in place.\<close>

lemma serve_unchanged: "serve g r = g"
  by (cases r)
    (simp_all add: read_root_def hello_def list_locations_def get_location_def
       test_database_def split: option.split sum.split)

lemma run_unchanged: "run g reqs = g"
  unfolding run_def by (induction reqs) (simp_all add: serve_unchanged)

lemmas probe_defs =
  test_database_def outer_except_def outer_try_body_def inner_try_def env_report_def
  initial_response_def

lemmas mark_defs = check_mark_def cross_mark_def warning_sign_def

lemma live_env_response: "fst (test_database live_env startup) = Inr live_response"
  by (simp add: probe_defs live_env_def live_db_def live_response_def truthy_def)

text \<open>Only the inner \<^verbatim>\<open>try\<close> writes the key \<^verbatim>\<open>collections\<close>, and it writes a slice.\<close>

lemma inner_try_collections:
  "inner_try db r = (x, r') \<Longrightarrow> length (collections r) \<le> 10 \<Longrightarrow>
   length (collections r') \<le> 10"
  by (auto simp: inner_try_def split: sum.splits py_exc.splits)

lemma outer_try_body_collections:
  "outer_try_body env r = (x, r') \<Longrightarrow> length (collections r) \<le> 10 \<Longrightarrow>
   length (collections r') \<le> 10"
  by (auto simp: outer_try_body_def Let_def split: sum.splits option.splits
      dest: inner_try_collections)

lemma outer_except_collections:
  "outer_except (x, r) = Inr r' \<Longrightarrow> collections r' = collections r"
  by (auto simp: outer_except_def split: option.splits py_exc.splits sum.splits)

lemma env_report_collections: "collections (env_report env r) = collections r"
  by (simp add: env_report_def Let_def)

lemma test_database_collections:
  assumes "fst (test_database env g) = Inr r"
  shows "length (collections r) \<le> 10"
proof -
  obtain x r1 where body: "outer_try_body env initial_response = (x, r1)"
    by (cases "outer_try_body env initial_response")
  from assms body obtain r2 where exc: "outer_except (x, r1) = Inr r2"
    and r: "r = env_report env r2"
    by (auto simp: test_database_def split: sum.splits)
  have "length (collections initial_response) \<le> 10"
    by (simp add: initial_response_def)
  with body have "length (collections r1) \<le> 10"
    by (rule outer_try_body_collections)
  with exc r show ?thesis
    by (simp add: outer_except_collections env_report_collections)
qed

text \<open>Lines 153 and 154 run last, whatever happened before them.\<close>

lemma test_database_env_fields:
  "fst (test_database env g) = Inr r \<Longrightarrow>
   database_url r =
     Some (if truthy (getenv env (ascii ''DATABASE_URL''))
           then check_mark @ ascii '' Set'' else cross_mark @ ascii '' Not Set'') \<and>
   database_name r =
     Some (if truthy (getenv env (ascii ''DATABASE_NAME''))
           then check_mark @ ascii '' Set'' else cross_mark @ ascii '' Not Set'')"
  by (auto simp: test_database_def env_report_def split: sum.splits)

text \<open>Where every failure is a plain error, one of the clauses catches it.\<close>

lemma inner_try_plain:
  "(case list_collection_names db of Inl e \<Rightarrow> plain_error e | Inr cols \<Rightarrow> True) \<Longrightarrow>
   \<exists>r'. inner_try db r = (None, r')"
  by (auto simp: inner_try_def split: sum.splits py_exc.splits)

lemma test_database_plain:
  assumes "plain_failures env"
  shows "\<exists>r. fst (test_database env g) = Inr r"
proof (cases "import_db env")
  case (Inl e)
  with assms have "plain_error e"
    by (simp add: plain_failures_def)
  with Inl show ?thesis
    by (cases e) (auto simp: probe_defs split: sum.splits)
next
  case (Inr h)
  show ?thesis
  proof (cases h)
    case None
    with Inr show ?thesis
      by (simp add: probe_defs)
  next
    case (Some db)
    show ?thesis
    proof (cases "name_attr db")
      case (Inl e)
      with assms Inr Some have "plain_error e"
        by (simp add: plain_failures_def)
      with Inl Inr Some show ?thesis
        by (cases e) (auto simp: test_database_def outer_except_def outer_try_body_def
            initial_response_def split: sum.splits)
    next
      case (Inr a)
      with assms \<open>import_db env = Inr h\<close> Some
      have "case list_collection_names db of Inl e \<Rightarrow> plain_error e | Inr cols \<Rightarrow> True"
        by (simp add: plain_failures_def)
      then obtain r' where "inner_try db
          (initial_response\<lparr>database := check_mark @ ascii '' Available'',
             database_url := Some (check_mark @ ascii '' Configured''),
             database_name :=
               Some (case a of Some n \<Rightarrow> n | None \<Rightarrow> check_mark @ ascii '' Connected''),
             connection_status := ascii ''Connected''\<rparr>) = (None, r')"
        using inner_try_plain by blast
      with Inr \<open>import_db env = Inr h\<close> Some show ?thesis
        by (simp add: test_database_def outer_except_def outer_try_body_def Let_def)
    qed
  qed
qed

subsection \<open>Location lookup\<close>

text \<open>
  C1. For every slug that is the slug of some location in the catalog, \<open>get_location\<close>
  returns a detail object, and the slug of its location is the slug that was asked for. This
  holds whatever the catalog contains, in particular for the catalog of the module.
\<close>

theorem get_location_known_slug:
  "s \<in> set (map slug (LOCATIONS g)) \<Longrightarrow>
   \<exists>d. fst (get_location s g) = Inr d \<and> slug (location d) = s"
  using get_location_found [of s g] by auto

theorem get_location_known_slug_witness:
  "ascii ''west-campus'' \<in> set (map slug (LOCATIONS startup)) \<and>
   (\<exists>d. fst (get_location (ascii ''west-campus'') startup) = Inr d \<and>
        slug (location d) = ascii ''west-campus'')"
proof -
  have h: "ascii ''west-campus'' \<in> set (map slug (LOCATIONS startup))"
    by (simp add: demo_data_defs)
  from get_location_known_slug [OF h] h show ?thesis by blast
qed

text \<open>
  C2. For every slug that no location of the catalog has, \<open>get_location\<close> raises the
  \<^verbatim>\<open>HTTPException\<close> with status code 404 and detail \<^verbatim>\<open>Location not found\<close>, and so returns
  no detail object.
\<close>

theorem get_location_unknown_slug:
  "s \<notin> set (map slug (LOCATIONS g)) \<Longrightarrow>
   fst (get_location s g) = Inl \<lparr>status_code = 404, detail = ascii ''Location not found''\<rparr> \<and>
   (\<forall>d. fst (get_location s g) \<noteq> Inr d)"
  by (simp add: get_location_def find_slug_absent)

theorem get_location_unknown_slug_witness:
  "ascii ''does-not-exist'' \<notin> set (map slug (LOCATIONS startup)) \<and>
   fst (get_location (ascii ''does-not-exist'') startup) =
     Inl \<lparr>status_code = 404, detail = ascii ''Location not found''\<rparr> \<and>
   (\<forall>d. fst (get_location (ascii ''does-not-exist'') startup) \<noteq> Inr d)"
proof -
  have h: "ascii ''does-not-exist'' \<notin> set (map slug (LOCATIONS startup))"
    by (simp add: demo_data_defs)
  from get_location_unknown_slug [OF h] h show ?thesis by blast
qed

text \<open>
  C3. After any sequence of requests, \<open>list_locations\<close> returns the catalog the module
  was loaded with, element for element and in the same order, and leaves the globals as it
  found them; a second call right after the first returns the same list.
\<close>

theorem list_locations_returns_catalog:
  "list_locations (run startup reqs) = (initial_LOCATIONS, run startup reqs) \<and>
   fst (list_locations (snd (list_locations g))) = fst (list_locations g)"
  by (simp add: run_unchanged list_locations_def startup_def)

text \<open>
  C4. For any two slugs of the catalog, \<open>get_location\<close> returns two detail objects with the
  same leadership, the same news and the same gallery: in both, the three arrays are the
  fixed demo collections of the module, whatever the slug.
\<close>

theorem get_location_same_collections:
  "s1 \<in> set (map slug (LOCATIONS g)) \<Longrightarrow> s2 \<in> set (map slug (LOCATIONS g)) \<Longrightarrow>
   \<exists>d1 d2. fst (get_location s1 g) = Inr d1 \<and> fst (get_location s2 g) = Inr d2 \<and>
     leadership d1 = leadership d2 \<and> news d1 = news d2 \<and> gallery d1 = gallery d2 \<and>
     leadership d1 = DEMO_LEADERS g \<and> news d1 = DEMO_NEWS g \<and> gallery d1 = DEMO_GALLERY g \<and>
     leadership d2 = DEMO_LEADERS g \<and> news d2 = DEMO_NEWS g \<and> gallery d2 = DEMO_GALLERY g"
  using get_location_found [of s1 g] get_location_found [of s2 g] by auto

theorem get_location_same_collections_witness:
  "ascii ''central-campus'' \<in> set (map slug (LOCATIONS startup)) \<and>
   ascii ''hillside-campus'' \<in> set (map slug (LOCATIONS startup)) \<and>
   (\<exists>d1 d2. fst (get_location (ascii ''central-campus'') startup) = Inr d1 \<and>
      fst (get_location (ascii ''hillside-campus'') startup) = Inr d2 \<and>
      leadership d1 = leadership d2 \<and> news d1 = news d2 \<and> gallery d1 = gallery d2 \<and>
      leadership d1 = initial_DEMO_LEADERS \<and> news d1 = initial_DEMO_NEWS \<and>
      gallery d1 = initial_DEMO_GALLERY \<and>
      leadership d2 = initial_DEMO_LEADERS \<and> news d2 = initial_DEMO_NEWS \<and>
      gallery d2 = initial_DEMO_GALLERY)"
proof -
  have h1: "ascii ''central-campus'' \<in> set (map slug (LOCATIONS startup))"
    by (simp add: demo_data_defs)
  have h2: "ascii ''hillside-campus'' \<in> set (map slug (LOCATIONS startup))"
    by (simp add: demo_data_defs)
  have g: "DEMO_LEADERS startup = initial_DEMO_LEADERS" "DEMO_NEWS startup = initial_DEMO_NEWS"
    "DEMO_GALLERY startup = initial_DEMO_GALLERY"
    by (simp_all add: startup_def)
  from get_location_same_collections [OF h1 h2] h1 h2 show ?thesis
    unfolding g by blast
qed

text \<open>
  C7. The request for \<^verbatim>\<open>central-campus\<close> succeeds; the location returned is named
  \<^verbatim>\<open>Central Congregation\<close>, the leadership has four entries and the news two.
\<close>

theorem central_campus_detail:
  "\<exists>d. fst (get_location (ascii ''central-campus'') startup) = Inr d \<and>
       name (location d) = ascii ''Central Congregation'' \<and>
       length (leadership d) = 4 \<and> length (news d) = 2"
  by (simp add: get_location_def demo_data_defs)

text \<open>
  C8. No two locations of the catalog share a slug, and the catalog stays what it was at
  startup: each of the five handlers returns the globals it was given, so the catalog after
  any sequence of requests is the one the module was loaded with.
\<close>

theorem catalog_unique_and_constant:
  "distinct (map slug (LOCATIONS startup)) \<and>
   LOCATIONS (run startup reqs) = LOCATIONS startup \<and>
   snd (list_locations g) = g \<and> snd (get_location s g) = g \<and>
   snd (read_root g) = g \<and> snd (hello g) = g \<and> snd (test_database env g) = g"
proof -
  have "distinct (map slug (LOCATIONS startup))"
    by (simp add: demo_data_defs)
  moreover have "LOCATIONS (run startup reqs) = LOCATIONS startup"
    by (simp add: run_unchanged)
  moreover have "snd (list_locations g) = g" "snd (read_root g) = g" "snd (hello g) = g"
    by (simp_all add: list_locations_def read_root_def hello_def)
  moreover have "snd (get_location s g) = g"
    using serve_unchanged [of g "GET_api_location s"] by simp
  moreover have "snd (test_database env g) = g"
    using serve_unchanged [of g "GET_test env"] by simp
  ultimately show ?thesis by simp
qed

subsection \<open>The diagnostic probe\<close>

text \<open>
  C5, as the code has it. The probe returns, with a status object whose \<^verbatim>\<open>database\<close>
  field describes the failure, in every environment where each failure of the optional
  database is an instance of \<^verbatim>\<open>Exception\<close> whose \<^verbatim>\<open>str\<close> returns a text: when the module
  is absent, when the import fails with another error, when the handle is \<^verbatim>\<open>None\<close>, when
  reading the name of the handle fails, and when the query fails. With a working connection
  it returns as well.
\<close>

theorem test_database_returns_on_errors:
  "(plain_failures env \<longrightarrow> (\<exists>r. fst (test_database env g) = Inr r)) \<and>
   (\<exists>r. fst (test_database \<lparr>import_db = Inl (ImportError s), getenv = ge\<rparr> g) = Inr r \<and>
        database r =
          cross_mark @ ascii '' Database module not found (run enable-database first)'') \<and>
   (\<exists>r. fst (test_database \<lparr>import_db = Inl (Exception (Inr m)), getenv = ge\<rparr> g) = Inr r \<and>
        database r = cross_mark @ ascii '' Error: '' @ take 50 m) \<and>
   (\<exists>r. fst (test_database \<lparr>import_db = Inr None, getenv = ge\<rparr> g) = Inr r \<and>
        database r = warning_sign @ ascii ''  Available but not initialized'') \<and>
   (\<exists>r. fst (test_database
              \<lparr>import_db = Inr (Some \<lparr>name_attr = Inl (ImportError s),
                                       list_collection_names = q\<rparr>),
               getenv = ge\<rparr> g) = Inr r \<and>
        database r =
          cross_mark @ ascii '' Database module not found (run enable-database first)'') \<and>
   (\<exists>r. fst (test_database
              \<lparr>import_db = Inr (Some \<lparr>name_attr = Inl (Exception (Inr m)),
                                       list_collection_names = q\<rparr>),
               getenv = ge\<rparr> g) = Inr r \<and>
        database r = cross_mark @ ascii '' Error: '' @ take 50 m) \<and>
   (\<exists>r. fst (test_database
              \<lparr>import_db = Inr (Some \<lparr>name_attr = Inr a,
                                       list_collection_names = Inl (ImportError (Inr m))\<rparr>),
               getenv = ge\<rparr> g) = Inr r \<and>
        database r = warning_sign @ ascii ''  Connected but Error: '' @ take 50 m) \<and>
   (\<exists>r. fst (test_database
              \<lparr>import_db = Inr (Some \<lparr>name_attr = Inr a,
                                       list_collection_names = Inl (Exception (Inr m))\<rparr>),
               getenv = ge\<rparr> g) = Inr r \<and>
        database r = warning_sign @ ascii ''  Connected but Error: '' @ take 50 m) \<and>
   (\<exists>r. fst (test_database
              \<lparr>import_db = Inr (Some \<lparr>name_attr = Inr a, list_collection_names = Inr cols\<rparr>),
               getenv = ge\<rparr> g) = Inr r \<and>
        database r = check_mark @ ascii '' Connected & Working'')"
proof (intro conjI)
  show "plain_failures env \<longrightarrow> (\<exists>r. fst (test_database env g) = Inr r)"
    by (rule impI) (rule test_database_plain)
qed (simp_all add: probe_defs)

theorem test_database_returns_on_errors_witness:
  "plain_failures env_url_empty \<and>
   (\<exists>r. fst (test_database env_url_empty startup) = Inr r \<and>
        database r =
          cross_mark @ ascii '' Database module not found (run enable-database first)'')"
proof -
  have h: "plain_failures env_url_empty"
    by (simp add: plain_failures_def env_url_empty_def)
  have e: "env_url_empty =
      \<lparr>import_db = Inl (ImportError (Inr (ascii ''No module named database''))),
       getenv = getenv env_url_empty\<rparr>"
    by (simp add: env_url_empty_def)
  from test_database_returns_on_errors
    [of env_url_empty startup "Inr (ascii ''No module named database'')" "getenv env_url_empty"]
  have "(\<exists>r. fst (test_database env_url_empty startup) = Inr r \<and>
        database r =
          cross_mark @ ascii '' Database module not found (run enable-database first)'')"
    unfolding e [symmetric] by blast
  with h show ?thesis by blast
qed

text \<open>
  C5, as the claim has it, fails: there are environments in which the probe raises. The
  clause \<^verbatim>\<open>except Exception\<close> does not catch a \<^verbatim>\<open>SystemExit\<close> of the import or a
  \<^verbatim>\<open>KeyboardInterrupt\<close> during the query, and what \<^verbatim>\<open>str(e)\<close> raises in the body of the
  outer clause reaches the caller.
\<close>

theorem test_database_raises_counterexample:
  "fst (test_database env_system_exit startup) = Inl (BaseException (Inr (ascii ''1''))) \<and>
   fst (test_database env_query_interrupted startup) = Inl (BaseException (Inr [])) \<and>
   fst (test_database env_str_raises startup) = Inl (Exception (Inr (ascii ''no text'')))"
  by (simp add: probe_defs env_system_exit_def env_query_interrupted_def env_str_raises_def)

text \<open>
  C6. In every response of the probe the \<^verbatim>\<open>collections\<close> field has at most ten entries;
  with a live connection it holds the first ten of the names the connection enumerates, or
  all of them when there are fewer.
\<close>

theorem collections_at_most_ten:
  "(fst (test_database env g) = Inr r \<longrightarrow> length (collections r) \<le> 10) \<and>
   (\<exists>r'. fst (test_database
              \<lparr>import_db = Inr (Some \<lparr>name_attr = Inr a, list_collection_names = Inr cols\<rparr>),
               getenv = ge\<rparr> g) = Inr r' \<and>
         collections r' = take 10 cols)"
proof
  show "fst (test_database env g) = Inr r \<longrightarrow> length (collections r) \<le> 10"
    by (simp add: test_database_collections)
next
  show "\<exists>r'. fst (test_database
              \<lparr>import_db = Inr (Some \<lparr>name_attr = Inr a, list_collection_names = Inr cols\<rparr>),
               getenv = ge\<rparr> g) = Inr r' \<and>
         collections r' = take 10 cols"
    by (simp add: probe_defs)
qed

theorem collections_at_most_ten_witness:
  "fst (test_database live_env startup) = Inr live_response \<and>
   length (collections live_response) \<le> 10"
  using collections_at_most_ten [of live_env startup live_response] live_env_response
  by blast

text \<open>
  C9, as the code has it. In every response of the probe, \<^verbatim>\<open>database_url\<close> and
  \<^verbatim>\<open>database_name\<close> are determined by what \<^verbatim>\<open>os.getenv\<close> returns for
  \<^verbatim>\<open>DATABASE_URL\<close> and \<^verbatim>\<open>DATABASE_NAME\<close>: the field is the string "Set" after the check
  mark when the variable has a value that is not empty, and "Not Set" after the cross mark
  when the variable is absent or empty. The values written while a handle is found are
  overwritten and are not in the response.
\<close>

theorem env_fields_from_getenv:
  "fst (test_database env g) = Inr r \<Longrightarrow>
   database_url r =
     Some (if truthy (getenv env (ascii ''DATABASE_URL''))
           then check_mark @ ascii '' Set'' else cross_mark @ ascii '' Not Set'') \<and>
   database_name r =
     Some (if truthy (getenv env (ascii ''DATABASE_NAME''))
           then check_mark @ ascii '' Set'' else cross_mark @ ascii '' Not Set'') \<and>
   database_url r \<noteq> Some (check_mark @ ascii '' Configured'') \<and>
   database_name r \<noteq> Some (check_mark @ ascii '' Connected'')"
  using test_database_env_fields [of env g r] by (simp add: mark_defs)

theorem env_fields_from_getenv_witness:
  "fst (test_database live_env startup) = Inr live_response \<and>
   database_url live_response = Some (check_mark @ ascii '' Set'') \<and>
   database_name live_response = Some (cross_mark @ ascii '' Not Set'') \<and>
   database_url live_response \<noteq> Some (check_mark @ ascii '' Configured'') \<and>
   database_name live_response \<noteq> Some (check_mark @ ascii '' Connected'')"
  using env_fields_from_getenv [OF live_env_response] live_env_response
  by (simp add: live_env_def truthy_def)

text \<open>
  C9, as the claim has it, fails: the two fields do not depend on the presence of the
  variables alone. The two environments below have the same variables and the same import
  outcome, and the probe reports \<^verbatim>\<open>DATABASE_URL\<close> as not set in the one where its value is
  the empty string.
\<close>

theorem env_fields_presence_counterexample:
  "getenv env_url_empty (ascii ''DATABASE_URL'') \<noteq> None \<and>
   getenv env_url_given (ascii ''DATABASE_URL'') \<noteq> None \<and>
   getenv env_url_empty (ascii ''DATABASE_NAME'') = None \<and>
   getenv env_url_given (ascii ''DATABASE_NAME'') = None \<and>
   import_db env_url_empty = import_db env_url_given \<and>
   fst (test_database env_url_empty startup) =
     Inr \<lparr>backend = check_mark @ ascii '' Running'',
          database =
            cross_mark @ ascii '' Database module not found (run enable-database first)'',
          database_url = Some (cross_mark @ ascii '' Not Set''),
          database_name = Some (cross_mark @ ascii '' Not Set''),
          connection_status = ascii ''Not Connected'', collections = []\<rparr> \<and>
   fst (test_database env_url_given startup) =
     Inr \<lparr>backend = check_mark @ ascii '' Running'',
          database =
            cross_mark @ ascii '' Database module not found (run enable-database first)'',
          database_url = Some (check_mark @ ascii '' Set''),
          database_name = Some (cross_mark @ ascii '' Not Set''),
          connection_status = ascii ''Not Connected'', collections = []\<rparr>"
  by (simp add: probe_defs env_url_empty_def env_url_given_def truthy_def)

text \<open>
  C10. Wherever the probe puts the text of an exception into the \<^verbatim>\<open>database\<close> field, it
  puts the first fifty characters of the text at most: after the 25 characters of the
  "Connected but Error" prefix when the query fails, after the 9 characters of the "Error"
  prefix when the import or the lookup of the name fails, or when the text of the query's
  error cannot be had and the error raised instead is reported. The field is then at most
  75, respectively 59, characters long, however long the text of the exception is.
\<close>

theorem exception_text_truncated:
  "(\<exists>r. fst (test_database
              \<lparr>import_db = Inr (Some \<lparr>name_attr = Inr a,
                                       list_collection_names = Inl (Exception (Inr m))\<rparr>),
               getenv = ge\<rparr> g) = Inr r \<and>
        database r = warning_sign @ ascii ''  Connected but Error: '' @ take 50 m \<and>
        length (database r) \<le> 75) \<and>
   (\<exists>r. fst (test_database
              \<lparr>import_db = Inr (Some \<lparr>name_attr = Inr a,
                                       list_collection_names = Inl (ImportError (Inr m))\<rparr>),
               getenv = ge\<rparr> g) = Inr r \<and>
        database r = warning_sign @ ascii ''  Connected but Error: '' @ take 50 m \<and>
        length (database r) \<le> 75) \<and>
   (\<exists>r. fst (test_database \<lparr>import_db = Inl (Exception (Inr m)), getenv = ge\<rparr> g) = Inr r \<and>
        database r = cross_mark @ ascii '' Error: '' @ take 50 m \<and>
        length (database r) \<le> 59) \<and>
   (\<exists>r. fst (test_database
              \<lparr>import_db = Inr (Some \<lparr>name_attr = Inl (Exception (Inr m)),
                                       list_collection_names = q\<rparr>),
               getenv = ge\<rparr> g) = Inr r \<and>
        database r = cross_mark @ ascii '' Error: '' @ take 50 m \<and>
        length (database r) \<le> 59) \<and>
   (\<exists>r. fst (test_database
              \<lparr>import_db =
                 Inr (Some \<lparr>name_attr = Inr a,
                            list_collection_names = Inl (Exception (Inl (Exception (Inr m))))\<rparr>),
               getenv = ge\<rparr> g) = Inr r \<and>
        database r = cross_mark @ ascii '' Error: '' @ take 50 m \<and>
        length (database r) \<le> 59) \<and>
   (\<exists>r. fst (test_database
              \<lparr>import_db =
                 Inr (Some \<lparr>name_attr = Inr a,
                            list_collection_names =
                              Inl (ImportError (Inl (Exception (Inr m))))\<rparr>),
               getenv = ge\<rparr> g) = Inr r \<and>
        database r = cross_mark @ ascii '' Error: '' @ take 50 m \<and>
        length (database r) \<le> 59)"
  by (intro conjI) (simp_all add: probe_defs mark_defs)

end
